theory Spec2Isabelle
  imports Complex_Main "HOL-Library.Multiset"
begin

section \<open>Numbers, vectors and errors\<close>

text \<open>
  The program is \<^verbatim>\<open>polyhedron_analysis.py\<close>. Its numbers are numpy float64 values. They
  are modelled twice: first as real numbers, so that the statements are about the exact
  arithmetic the program approximates, and then, for the steps whose rounding decides a
  claim, as doubles with the rounding after every operation. The one place where numpy
  leaves the finite numbers, a division by a zero \<^verbatim>\<open>ave_bond\<close> (numpy returns nan or inf
  and carries on), is the outcome \<open>NonFinite\<close> of both models.

  A row of an \<open>n \<times> 3\<close> coordinate array is a triple, a 3 by 3 matrix is a triple of rows.
\<close>

type_synonym vec3 = "real \<times> real \<times> real"
type_synonym mat3 = "vec3 \<times> vec3 \<times> vec3"

datatype error =
    FailedNearestNeighbours  \<comment> \<open>lines 122 to 124: the message and \<^verbatim>\<open>sys.exit(1)\<close>\<close>
  | IndexError               \<comment> \<open>a Python or numpy index out of range\<close>
  | NumpyError               \<comment> \<open>numpy raises: shapes that do not fit, an axis that is not there\<close>
  | LibraryRaised            \<comment> \<open>an exception raised inside pymatgen\<close>
  | NonFinite                \<comment> \<open>numpy divides by zero and goes on with nan or inf\<close>

fun err_bind :: "error + 'a \<Rightarrow> ('a \<Rightarrow> error + 'b) \<Rightarrow> error + 'b" where
  "err_bind (Inl e) f = Inl e"
| "err_bind (Inr x) f = f x"

fun traverse :: "('a \<Rightarrow> error + 'b) \<Rightarrow> 'a list \<Rightarrow> error + 'b list" where
  "traverse f [] = Inr []"
| "traverse f (x # xs) =
     err_bind (f x) (\<lambda>y. err_bind (traverse f xs) (\<lambda>ys. Inr (y # ys)))"

definition py_index :: "'a list \<Rightarrow> int \<Rightarrow> error + 'a" where
  \<comment> \<open>\<^verbatim>\<open>xs[i]\<close> on a Python list: a negative index counts from the end\<close>
  "py_index xs i =
     (if 0 \<le> i \<and> i < int (length xs) then Inr (xs ! nat i)
      else if i < 0 \<and> - int (length xs) \<le> i then Inr (xs ! nat (int (length xs) + i))
      else Inl IndexError)"

fun vadd :: "vec3 \<Rightarrow> vec3 \<Rightarrow> vec3" where
  "vadd (a1, a2, a3) (b1, b2, b3) = (a1 + b1, a2 + b2, a3 + b3)"

fun vsub :: "vec3 \<Rightarrow> vec3 \<Rightarrow> vec3" where
  "vsub (a1, a2, a3) (b1, b2, b3) = (a1 - b1, a2 - b2, a3 - b3)"

fun vdiv :: "vec3 \<Rightarrow> real \<Rightarrow> vec3" where
  "vdiv (a1, a2, a3) c = (a1 / c, a2 / c, a3 / c)"

fun vscale :: "real \<Rightarrow> vec3 \<Rightarrow> vec3" where
  "vscale c (a1, a2, a3) = (c * a1, c * a2, c * a3)"

fun dot3 :: "vec3 \<Rightarrow> vec3 \<Rightarrow> real" where
  "dot3 (a1, a2, a3) (b1, b2, b3) = a1 * b1 + a2 * b2 + a3 * b3"

definition norm3 :: "vec3 \<Rightarrow> real" where
  \<comment> \<open>\<^verbatim>\<open>np.sqrt(np.sum(a * a))\<close> on one row\<close>
  "norm3 a = sqrt (dot3 a a)"

fun transpose3 :: "mat3 \<Rightarrow> mat3" where
  "transpose3 ((a11, a12, a13), (a21, a22, a23), (a31, a32, a33)) =
     ((a11, a21, a31), (a12, a22, a32), (a13, a23, a33))"

fun mat_vec :: "mat3 \<Rightarrow> vec3 \<Rightarrow> vec3" where
  \<comment> \<open>\<^verbatim>\<open>np.dot(M, x)\<close>, also \<^verbatim>\<open>np.tensordot(M, x, axes=1)\<close>\<close>
  "mat_vec (r1, r2, r3) x = (dot3 r1 x, dot3 r2 x, dot3 r3 x)"

definition vec_mat :: "vec3 \<Rightarrow> mat3 \<Rightarrow> vec3" where
  \<comment> \<open>\<^verbatim>\<open>np.dot(x, M)\<close>\<close>
  "vec_mat x m = mat_vec (transpose3 m) x"

fun mat_mul :: "mat3 \<Rightarrow> mat3 \<Rightarrow> mat3" where
  "mat_mul (r1, r2, r3) m = (vec_mat r1 m, vec_mat r2 m, vec_mat r3 m)"

definition eye3 :: mat3 where
  "eye3 = ((1, 0, 0), (0, 1, 0), (0, 0, 1))"

definition zero3 :: vec3 where
  "zero3 = (0, 0, 0)"

definition vx :: "vec3 \<Rightarrow> real" where "vx a = fst a"
definition vy :: "vec3 \<Rightarrow> real" where "vy a = fst (snd a)"
definition vz :: "vec3 \<Rightarrow> real" where "vz a = snd (snd a)"

definition mean_list :: "real list \<Rightarrow> real" where
  \<comment> \<open>\<^verbatim>\<open>np.mean\<close> of a one-dimensional array that is not empty\<close>
  "mean_list xs = sum_list xs / real (length xs)"

definition mean_rows :: "vec3 list \<Rightarrow> vec3" where
  \<comment> \<open>\<^verbatim>\<open>np.mean(a, axis=0)\<close> of an \<open>n \<times> 3\<close> array with \<open>n > 0\<close>\<close>
  "mean_rows ps = (mean_list (map vx ps), mean_list (map vy ps), mean_list (map vz ps))"

definition ravel :: "vec3 list \<Rightarrow> real list" where
  "ravel ps = concat (map (\<lambda>(x, y, z). [x, y, z]) ps)"

definition dot :: "real list \<Rightarrow> real list \<Rightarrow> real" where
  "dot b d = sum_list (map2 (*) b d)"

section \<open>The data the program works on\<close>

text \<open>
  Of a pymatgen structure the program reads the Cartesian coordinates of the sites and
  the lattice matrix (its rows are the lattice vectors). A neighbour candidate is one
  dictionary of the list returned by \<^verbatim>\<open>CrystalNN.get_nn_info\<close>; the program reads its
  keys \<^verbatim>\<open>site_index\<close>, \<^verbatim>\<open>image\<close> and \<^verbatim>\<open>weight\<close>. A molecule is the list of its
  Cartesian coordinates: the species are all set to hydrogen and never read.
  The basis table is the dictionary read from the basis file, in insertion order; a
  Python dictionary holds a key once, so iterating over the keys and looking each one up
  is iterating over the entries.
\<close>

type_synonym image = "int \<times> int \<times> int"

record struct =
  sites :: "vec3 list"
  lattice :: mat3

record candidate =
  site_index :: int
  image :: image
  weight :: real

type_synonym molecule = "vec3 list"
type_synonym basis_table = "(string \<times> real list list) list"

text \<open>A numpy result of dimension zero or one, as \<^verbatim>\<open>np.tensordot\<close> returns them.\<close>

datatype ndarray = Scalar real | Vector "real list"

fun image_real :: "image \<Rightarrow> vec3" where
  "image_real (i, j, k) = (real_of_int i, real_of_int j, real_of_int k)"

definition get_cartesian_coords :: "mat3 \<Rightarrow> image \<Rightarrow> vec3" where
  \<comment> \<open>pymatgen's \<^verbatim>\<open>Lattice.get_cartesian_coords\<close>: \<^verbatim>\<open>dot(fractional_coords, matrix)\<close>\<close>
  "get_cartesian_coords m im = vec_mat (image_real im) m"

section \<open>The functions of the program\<close>

definition construct_molecule ::
  "struct \<Rightarrow> int \<Rightarrow> int list \<Rightarrow> real \<Rightarrow> image list \<Rightarrow> vec3 \<Rightarrow> error + molecule" where
  \<comment> \<open>lines 17 to 32. An empty neighbour list makes \<^verbatim>\<open>np.array([]) - origin\<close> raise; a
      longer \<^verbatim>\<open>images\<close> makes the \<^verbatim>\<open>Molecule\<close> constructor raise (species and coordinates
      differ in number), also when the division by a zero \<^verbatim>\<open>ave_bond\<close> has filled the
      coordinates with nan\<close>
  "construct_molecule struct centre_atom nearest_neighbour_indices ave_bond images origin =
     err_bind
       (traverse
          (\<lambda>(i, site).
             err_bind (py_index (sites struct) site) (\<lambda>coords.
             err_bind (py_index images (int i)) (\<lambda>im.
             Inr (vadd coords (get_cartesian_coords (lattice struct) im)))))
          (enumerate 0 nearest_neighbour_indices))
       (\<lambda>rows.
          if rows = [] then Inl NumpyError
          else if length images \<noteq> length rows then Inl LibraryRaised
          else if ave_bond = 0 then Inl NonFinite
          else Inr (zero3 # map (\<lambda>r. vdiv (vsub r origin) ave_bond) rows))"

definition construct_molecule_ideal :: "vec3 list \<Rightarrow> error + molecule" where
  \<comment> \<open>lines 35 to 40; the parameter \<^verbatim>\<open>species\<close> is not used by the source either. For an
      empty \<^verbatim>\<open>ideal_coords\<close> \<^verbatim>\<open>np.concatenate\<close> raises (two dimensions against one)\<close>
  "construct_molecule_ideal ideal_coords =
     (if ideal_coords = [] then Inl NumpyError else Inr (zero3 # ideal_coords))"

definition fancy_index :: "'a list \<Rightarrow> nat list \<Rightarrow> error + 'a list" where
  \<comment> \<open>\<^verbatim>\<open>np.array(xs)[inds].tolist()\<close>\<close>
  "fancy_index xs inds =
     traverse (\<lambda>i. if i < length xs then Inr (xs ! i) else Inl IndexError) inds"

text \<open>
  \<^verbatim>\<open>HungarianOrderMatcher(reference).match(transform)\<close> is pymatgen's; it is a parameter
  of the model, a function of the two coordinate lists (reference first) that returns the
  index permutation, the matrix \<open>u\<close> and the translation \<open>v\<close>, or \<open>None\<close> when it raises.
  \<^verbatim>\<open>SymmOp.operate\<close> maps a point \<open>x\<close> to the first three entries of the affine matrix
  times \<open>(x, 1)\<close>, which is \<open>u\<^sup>T x + v\<close> for the matrix built on lines 50 to 52.
\<close>

type_synonym matcher = "molecule \<Rightarrow> molecule \<Rightarrow> (nat list \<times> mat3 \<times> vec3) option"

definition apply_operation :: "mat3 \<Rightarrow> vec3 \<Rightarrow> molecule \<Rightarrow> molecule" where
  "apply_operation u v mol = map (\<lambda>x. vadd (mat_vec (transpose3 u) x) v) mol"

definition match_molecules ::
  "matcher \<Rightarrow> molecule \<Rightarrow> molecule \<Rightarrow> error + (molecule \<times> mat3 \<times> vec3)" where
  \<comment> \<open>lines 43 to 57\<close>
  "match_molecules match molecule_transform molecule_reference =
     (case match molecule_reference molecule_transform of
        None \<Rightarrow> Inl LibraryRaised
      | Some (inds, u, v) \<Rightarrow>
          err_bind (fancy_index (apply_operation u v molecule_transform) inds)
            (\<lambda>reordered. Inr (reordered, u, v)))"

definition np_subtract :: "vec3 list \<Rightarrow> vec3 list \<Rightarrow> error + vec3 list" where
  \<comment> \<open>\<^verbatim>\<open>a - b\<close> on coordinate arrays: row by row, a single row is broadcast\<close>
  "np_subtract a b =
     (if length a = length b then Inr (map2 vsub a b)
      else if length a = 1 \<and> b \<noteq> [] then Inr (map (\<lambda>y. vsub (hd a) y) b)
      else if length b = 1 \<and> a \<noteq> [] then Inr (map (\<lambda>x. vsub x (hd b)) a)
      else Inl NumpyError)"

definition tensordot1 :: "real list list \<Rightarrow> real list \<Rightarrow> error + ndarray" where
  \<comment> \<open>\<^verbatim>\<open>np.tensordot(a, d, axes=1)\<close> for a list of rows \<open>a\<close>: every row must be as long as
      \<open>d\<close>; no rows at all give an array of shape (0,), which fits an empty \<open>d\<close> only\<close>
  "tensordot1 a d =
     (if a = [] then (if d = [] then Inr (Scalar 0) else Inl NumpyError)
      else if list_all (\<lambda>b. length b = length d) a then Inr (Vector (map (\<lambda>b. dot b d) a))
      else Inl NumpyError)"

definition calc_displacement ::
  "molecule \<Rightarrow> molecule \<Rightarrow> real list list \<Rightarrow> error + ndarray" where
  \<comment> \<open>lines 60 to 65\<close>
  "calc_displacement pymatgen_molecule pymatgen_molecule_ideal irrep_distortions =
     err_bind (np_subtract pymatgen_molecule pymatgen_molecule_ideal)
       (\<lambda>diff. tensordot1 irrep_distortions (drop 3 (ravel diff)))"

definition calc_displacement_centre ::
  "struct \<Rightarrow> int \<Rightarrow> vec3 \<Rightarrow> real \<Rightarrow> mat3 \<Rightarrow> error + vec3" where
  \<comment> \<open>lines 68 to 72\<close>
  "calc_displacement_centre struct centre_atom origin ave_bond matrix_rotation =
     err_bind (py_index (sites struct) centre_atom) (\<lambda>coords.
       if ave_bond = 0 then Inl NonFinite
       else
         let displacement_centre = vec_mat (vdiv (vsub coords origin) ave_bond) matrix_rotation
         in Inr (mat_vec eye3 displacement_centre))"

text \<open>The constants and the steps of lines 79 to 172.\<close>

definition ideal_coords :: "vec3 list" where
  "ideal_coords = [(-1, 0, 0), (0, -1, 0), (0, 0, -1), (0, 0, 1), (0, 1, 0), (1, 0, 0)]"

definition irrep_distortions_of :: "basis_table \<Rightarrow> real list list" where
  \<comment> \<open>lines 102 to 105\<close>
  "irrep_distortions_of dict_basis = concat (map snd dict_basis)"

definition temp_dict_of :: "candidate list \<Rightarrow> candidate list" where
  \<comment> \<open>lines 118 to 121; \<^verbatim>\<open>sorted\<close> is stable, and so is \<open>sort_key\<close>\<close>
  "temp_dict_of nn_info = take (length ideal_coords) (sort_key (\<lambda>x. - weight x) nn_info)"

definition temp_coords_of :: "struct \<Rightarrow> candidate list \<Rightarrow> error + vec3 list" where
  \<comment> \<open>lines 127 to 131\<close>
  "temp_coords_of mp_struct temp_dict =
     traverse
       (\<lambda>d. err_bind (py_index (sites mp_struct) (site_index d)) (\<lambda>coords.
              Inr (vadd coords (get_cartesian_coords (lattice mp_struct) (image d)))))
       temp_dict"

definition ave_bond_of :: "vec3 list \<Rightarrow> vec3 \<Rightarrow> real" where
  \<comment> \<open>lines 133 and 134\<close>
  "ave_bond_of temp_coords molecule_origin =
     mean_list (map (\<lambda>p. norm3 (vsub p molecule_origin)) temp_coords)"

definition square_array :: "ndarray \<Rightarrow> ndarray" where
  \<comment> \<open>line 163\<close>
  "square_array a = (case a of Scalar x \<Rightarrow> Scalar (x * x) | Vector xs \<Rightarrow> Vector (map (\<lambda>x. x * x) xs))"

fun average_loop :: "basis_table \<Rightarrow> ndarray \<Rightarrow> real list \<Rightarrow> nat \<Rightarrow> error + real list" where
  \<comment> \<open>lines 166 to 169, with the loop variables \<^verbatim>\<open>temp_list\<close> and \<^verbatim>\<open>count\<close> (here \<open>cnt\<close>); slicing an
      array of dimension zero raises\<close>
  "average_loop [] distortion_amplitudes temp_list cnt = Inr temp_list"
| "average_loop ((irrep, vecs) # rest) distortion_amplitudes temp_list cnt =
     (case distortion_amplitudes of
        Scalar x \<Rightarrow> Inl IndexError
      | Vector xs \<Rightarrow>
          (let dim = length vecs
           in average_loop rest distortion_amplitudes
                (temp_list @ [sum_list (take dim (drop cnt xs))]) (cnt + dim)))"

definition average :: "basis_table \<Rightarrow> ndarray \<Rightarrow> error + real list" where
  \<comment> \<open>lines 163 to 170\<close>
  "average dict_basis distortion_amplitudes =
     err_bind (average_loop dict_basis (square_array distortion_amplitudes) [] 0)
       (\<lambda>temp_list. Inr (drop 3 (map sqrt temp_list)))"

text \<open>
  The two neighbour calls are pymatgen's as well. \<^verbatim>\<open>mp_struct.get_neighbor_list(r=6.5)\<close> on
  line 108 has its result thrown away: the parameter \<open>get_neighbor_list\<close> says whether it
  returns or raises (\<open>None\<close>). \<^verbatim>\<open>CrystalNN.get_nn_info(structure, n)\<close> is the parameter
  \<open>get_nn_info\<close>: the list of candidates, or \<open>None\<close> when it raises. The basis table is
  the parameter \<open>dict_basis\<close>: the model starts after the basis file has been read.
\<close>

type_synonym nn_finder = "struct \<Rightarrow> int \<Rightarrow> candidate list option"
type_synonym neighbor_lister = "struct \<Rightarrow> real \<Rightarrow> unit option"

definition calc_distortions_from_struct_octahedron_withcentre ::
  "neighbor_lister \<Rightarrow> nn_finder \<Rightarrow> matcher \<Rightarrow> basis_table \<Rightarrow> struct \<Rightarrow> int
     \<Rightarrow> error + real list" where
  \<comment> \<open>lines 79 to 172, the steps in the order of the source. With no candidate at all
      \<^verbatim>\<open>temp_coords\<close> has one dimension and \<^verbatim>\<open>np.sum(..., axis=1)\<close> on line 134 raises\<close>
  "calc_distortions_from_struct_octahedron_withcentre get_neighbor_list get_nn_info match dict_basis
       mp_struct centre_atom =
     (let irrep_distortions = irrep_distortions_of dict_basis in
      case get_neighbor_list mp_struct (13 / 2) of
        None \<Rightarrow> Inl LibraryRaised
      | Some _ \<Rightarrow>
     (case get_nn_info mp_struct centre_atom of
        None \<Rightarrow> Inl LibraryRaised
      | Some nn_info \<Rightarrow>
     (let temp_dict = temp_dict_of nn_info in
      if length ideal_coords < 6 then Inl FailedNearestNeighbours
      else
      err_bind (temp_coords_of mp_struct temp_dict) (\<lambda>temp_coords.
      if temp_coords = [] then Inl NumpyError
      else
     (let molecule_origin = mean_rows temp_coords;
          ave_bond = ave_bond_of temp_coords molecule_origin in
      err_bind (construct_molecule mp_struct centre_atom (map site_index temp_dict)
                  ave_bond (map image temp_dict) molecule_origin) (\<lambda>pymatgen_molecule.
      err_bind (construct_molecule_ideal ideal_coords) (\<lambda>pymatgen_molecule_ideal.
      err_bind (match_molecules match pymatgen_molecule pymatgen_molecule_ideal)
        (\<lambda>(pymatgen_molecule, matrix_rotation, _).
      err_bind (calc_displacement pymatgen_molecule pymatgen_molecule_ideal
                  irrep_distortions) (\<lambda>distortion_amplitudes.
      err_bind (calc_displacement_centre mp_struct centre_atom molecule_origin ave_bond
                  matrix_rotation) (\<lambda>centre_atom_amplitude.
     (let centre_atom_amplitude = norm3 centre_atom_amplitude in
      err_bind (average dict_basis distortion_amplitudes) (\<lambda>distortion_amplitudes.
      Inr (distortion_amplitudes @ [centre_atom_amplitude])))))))))))))"

definition calc_distortions_from_struct_octahedron ::
  "neighbor_lister \<Rightarrow> nn_finder \<Rightarrow> matcher \<Rightarrow> basis_table \<Rightarrow> struct \<Rightarrow> int
     \<Rightarrow> error + real list" where
  \<comment> \<open>lines 75 and 76\<close>
  "calc_distortions_from_struct_octahedron get_neighbor_list get_nn_info match dict_basis mp_struct centre_atom =
     err_bind (calc_distortions_from_struct_octahedron_withcentre get_neighbor_list get_nn_info match dict_basis
                 mp_struct centre_atom)
       (\<lambda>v. Inr (take 4 v))"

section \<open>The same steps in float64\<close>

text \<open>
  Two claims are about what rounding does, so the steps with arithmetic in them are written
  a second time, every operation followed by the rounding of float64. The finite doubles
  are the reals \<open>m \<times> 2\<^sup>e\<close> with \<open>\<bar>m\<bar> < 2\<^sup>5\<^sup>3\<close> and \<open>e \<ge> -1074\<close>; \<open>fl\<close> rounds a real to the
  nearest of them, a tie to the even significand. A result beyond the largest double
  (numpy's inf) is outside this model, as nan is.

  numpy adds fewer than eight numbers from left to right, starting from 0, and adds the
  rows of an array one after the other (\<^verbatim>\<open>np.sum\<close>, \<^verbatim>\<open>np.mean\<close>); that is \<open>fl_sum\<close>.
  \<^verbatim>\<open>np.dot\<close> and \<^verbatim>\<open>np.tensordot\<close> go through BLAS, and longer sums are added pairwise: there
  the order of the additions is not fixed by the source, and the model adds from left to
  right all the same. In the two examples evaluated below every matrix has the entries 0
  and 1 only, or is diagonal and multiplied by 0 and 1, so that these products and sums
  are exact in any order.
\<close>

definition round_even :: "real \<Rightarrow> int" where
  "round_even t =
     (let f = \<lfloor>t\<rfloor>
      in if t - of_int f < 1 / 2 then f
         else if 1 / 2 < t - of_int f then f + 1
         else if even f then f else f + 1)"

definition fl :: "real \<Rightarrow> real" where
  "fl x =
     (if x = 0 then 0
      else let e = max (\<lfloor>log 2 \<bar>x\<bar>\<rfloor> - 52) (- 1074)
           in of_int (round_even (x / 2 powr of_int e)) * 2 powr of_int e)"


fun fl_vsub :: "vec3 \<Rightarrow> vec3 \<Rightarrow> vec3" where
  "fl_vsub (a1, a2, a3) (b1, b2, b3) = (fl (a1 - b1), fl (a2 - b2), fl (a3 - b3))"

fun fl_vdiv :: "vec3 \<Rightarrow> real \<Rightarrow> vec3" where
  "fl_vdiv (a1, a2, a3) c = (fl (a1 / c), fl (a2 / c), fl (a3 / c))"

definition fl_sum :: "real list \<Rightarrow> real" where
  \<comment> \<open>\<^verbatim>\<open>np.sum\<close> of a short one-dimensional array: from 0, from left to right\<close>
  "fl_sum xs = foldl (\<lambda>acc x. fl (acc + x)) 0 xs"

fun fl_dot3 :: "vec3 \<Rightarrow> vec3 \<Rightarrow> real" where
  "fl_dot3 (a1, a2, a3) (b1, b2, b3) = fl_sum [fl (a1 * b1), fl (a2 * b2), fl (a3 * b3)]"

fun fl_norm3 :: "vec3 \<Rightarrow> real" where
  \<comment> \<open>\<^verbatim>\<open>np.sqrt(np.sum(a * a))\<close> on one row\<close>
  "fl_norm3 (a1, a2, a3) = fl (sqrt (fl_sum [fl (a1 * a1), fl (a2 * a2), fl (a3 * a3)]))"

fun fl_mat_vec :: "mat3 \<Rightarrow> vec3 \<Rightarrow> vec3" where
  "fl_mat_vec (r1, r2, r3) x = (fl_dot3 r1 x, fl_dot3 r2 x, fl_dot3 r3 x)"

definition fl_vec_mat :: "vec3 \<Rightarrow> mat3 \<Rightarrow> vec3" where
  "fl_vec_mat x m = fl_mat_vec (transpose3 m) x"












definition fl_calc_displacement_centre ::
  "struct \<Rightarrow> int \<Rightarrow> vec3 \<Rightarrow> real \<Rightarrow> mat3 \<Rightarrow> error + vec3" where
  "fl_calc_displacement_centre struct centre_atom origin ave_bond matrix_rotation =
     err_bind (py_index (sites struct) centre_atom) (\<lambda>coords.
       if ave_bond = 0 then Inl NonFinite
       else
         let displacement_centre =
               fl_vec_mat (fl_vdiv (fl_vsub coords origin) ave_bond) matrix_rotation
         in Inr (fl_mat_vec eye3 displacement_centre))"







section \<open>Notions the claims use\<close>

text \<open>
  A matrix is orthogonal when its product with its transpose, on either side, is the
  identity. The matrix \<open>ex_rotation\<close> is an example, a rotation about the \<open>x\<close> axis.
\<close>

definition orthogonal3 :: "mat3 \<Rightarrow> bool" where
  "orthogonal3 u \<longleftrightarrow> mat_mul u (transpose3 u) = eye3 \<and> mat_mul (transpose3 u) u = eye3"

definition ex_rotation :: mat3 where
  "ex_rotation = ((1, 0, 0), (0, 3/5, 4/5), (0, - (4/5), 3/5))"

text \<open>A rotation is an orthogonal matrix of determinant 1.\<close>

fun det3 :: "mat3 \<Rightarrow> real" where
  "det3 ((a11, a12, a13), (a21, a22, a23), (a31, a32, a33)) =
     a11 * (a22 * a33 - a23 * a32) - a12 * (a21 * a33 - a23 * a31)
     + a13 * (a21 * a32 - a22 * a31)"


text \<open>
  The molecule as section 4.2 of the specification words it, for six neighbours: the
  position of a neighbour is the position of its site plus the Cartesian vector of its
  image offset, the origin is the arithmetic mean of the six positions, \<open>ave_bond\<close> the mean
  of their Euclidean distances to the origin, and the points are the zero vector followed
  by the positions, shifted by the origin and divided by \<open>ave_bond\<close>.
\<close>

definition spec_neighbor_position :: "struct \<Rightarrow> candidate \<Rightarrow> vec3" where
  "spec_neighbor_position s d =
     vadd (sites s ! nat (site_index d)) (get_cartesian_coords (lattice s) (image d))"

definition spec_molecule_origin :: "vec3 list \<Rightarrow> vec3" where
  "spec_molecule_origin ps = vscale (1 / 6) (foldr vadd ps zero3)"

fun euclidean_distance :: "vec3 \<Rightarrow> vec3 \<Rightarrow> real" where
  "euclidean_distance (a1, a2, a3) (b1, b2, b3) =
     sqrt ((a1 - b1)\<^sup>2 + (a2 - b2)\<^sup>2 + (a3 - b3)\<^sup>2)"

definition spec_ave_bond :: "vec3 list \<Rightarrow> real" where
  "spec_ave_bond ps =
     (\<Sum>p\<leftarrow>ps. euclidean_distance p (spec_molecule_origin ps)) / 6"

definition spec_molecule :: "struct \<Rightarrow> candidate list \<Rightarrow> molecule" where
  "spec_molecule s neighbors =
     (let ps = map (spec_neighbor_position s) neighbors
      in zero3 # map (\<lambda>p. vdiv (vsub p (spec_molecule_origin ps)) (spec_ave_bond ps)) ps)"

text \<open>
  The amplitudes as section 4.5 words them: the displacement is the flattened difference of
  the coordinates without its first three entries, the amplitude of an irrep is the square
  root of the sum of the squared projections on its basis vectors, in the order of the
  table, and the first three amplitudes are dropped.
\<close>

definition spec_displacement :: "molecule \<Rightarrow> molecule \<Rightarrow> real list" where
  "spec_displacement aligned ideal = drop 3 (ravel (map2 vsub aligned ideal))"

definition spec_irrep_amplitude :: "real list list \<Rightarrow> real list \<Rightarrow> real" where
  "spec_irrep_amplitude vecs d = sqrt (\<Sum>b\<leftarrow>vecs. (dot b d)\<^sup>2)"

definition spec_amplitudes :: "molecule \<Rightarrow> molecule \<Rightarrow> basis_table \<Rightarrow> real list" where
  "spec_amplitudes aligned ideal dict_basis =
     drop 3 (map (\<lambda>(irrep, vecs). spec_irrep_amplitude vecs (spec_displacement aligned ideal))
               dict_basis)"

text \<open>
  What the program reports for an aligned molecule: the projection of lines 152 to 154
  followed by the averaging of lines 163 to 170. A basis table fits a displacement of \<open>n\<close>
  entries when it has at least one basis vector and all of them have \<open>n\<close> entries.
\<close>

definition reported_amplitudes :: "molecule \<Rightarrow> molecule \<Rightarrow> basis_table \<Rightarrow> error + real list" where
  "reported_amplitudes aligned ideal dict_basis =
     err_bind (calc_displacement aligned ideal (irrep_distortions_of dict_basis))
       (average dict_basis)"

definition basis_fits :: "basis_table \<Rightarrow> nat \<Rightarrow> bool" where
  "basis_fits dict_basis n \<longleftrightarrow>
     irrep_distortions_of dict_basis \<noteq> []
     \<and> list_all (\<lambda>b. length b = n) (irrep_distortions_of dict_basis)"

section \<open>A worked example\<close>

text \<open>
  A cell of 4 by 2 by 2 with the centre atom at site 0, lifted by a third along \<open>z\<close>, and
  three neighbour atoms on the cell faces; each of them and one of its periodic images are
  the six neighbours, two of them twice as far as the others. The neighbour query returns
  seven candidates out of order, the seventh being an image of the centre atom with a low
  weight. The matcher of the example returns the permutation that puts the neighbours in
  the order of the ideal molecule, with the identity matrix and no translation. The basis
  table has seven irreps of vectors with 18 entries.
\<close>

definition ex_struct :: struct where
  "ex_struct = \<lparr>sites = [(2, 1, 4/3), (0, 1, 1), (2, 0, 1), (2, 1, 0)],
                 lattice = ((4, 0, 0), (0, 2, 0), (0, 0, 2))\<rparr>"

definition ex_nn_info :: "candidate list" where
  "ex_nn_info =
     [\<lparr>site_index = 1, image = (0, 0, 0), weight = 4/5\<rparr>,
      \<lparr>site_index = 2, image = (0, 0, 0), weight = 1\<rparr>,
      \<lparr>site_index = 0, image = (1, 0, 0), weight = 1/10\<rparr>,
      \<lparr>site_index = 2, image = (0, 1, 0), weight = 1\<rparr>,
      \<lparr>site_index = 3, image = (0, 0, 0), weight = 1\<rparr>,
      \<lparr>site_index = 1, image = (1, 0, 0), weight = 4/5\<rparr>,
      \<lparr>site_index = 3, image = (0, 0, 1), weight = 1\<rparr>]"

definition ex_temp_dict :: "candidate list" where
  "ex_temp_dict =
     [\<lparr>site_index = 2, image = (0, 0, 0), weight = 1\<rparr>,
      \<lparr>site_index = 2, image = (0, 1, 0), weight = 1\<rparr>,
      \<lparr>site_index = 3, image = (0, 0, 0), weight = 1\<rparr>,
      \<lparr>site_index = 3, image = (0, 0, 1), weight = 1\<rparr>,
      \<lparr>site_index = 1, image = (0, 0, 0), weight = 4/5\<rparr>,
      \<lparr>site_index = 1, image = (1, 0, 0), weight = 4/5\<rparr>]"

definition ex_get_neighbor_list :: neighbor_lister where
  "ex_get_neighbor_list s r = Some ()"

definition ex_get_nn_info :: nn_finder where
  "ex_get_nn_info s n = Some ex_nn_info"

definition ex_match :: matcher where
  "ex_match reference transform = Some ([0, 5, 1, 3, 4, 2, 6], eye3, zero3)"

definition ex_basis :: basis_table where
  "ex_basis =
     [(''A1g'', [[-1, 0, 0, 0, -1, 0, 0, 0, -1, 0, 0, 1, 0, 1, 0, 1, 0, 0]]),
      (''T1g'', [[0, 1, 0, -1, 0, 0, 0, 0, 0, 0, 0, 0, 1, 0, 0, 0, -1, 0]]),
      (''T1u_t'', [[1, 0, 0, 1, 0, 0, 1, 0, 0, 1, 0, 0, 1, 0, 0, 1, 0, 0]]),
      (''Eg'', [[-1, 0, 0, 0, 1, 0, 0, 0, 0, 0, 0, 0, 0, -1, 0, 1, 0, 0],
               [-1, 0, 0, 0, -1, 0, 0, 0, 2, 0, 0, -2, 0, 1, 0, 1, 0, 0]]),
      (''T2g'', [[0, -1, 0, -1, 0, 0, 0, 0, 0, 0, 0, 0, 1, 0, 0, 0, 1, 0]]),
      (''T1u'', [[0, 0, 0, 1, 0, 0, 1, 0, 0, 1, 0, 0, 1, 0, 0, 0, 0, 0]]),
      (''T2u'', [[0, 0, 0, 1, 0, 0, -1, 0, 0, -1, 0, 0, 1, 0, 0, 0, 0, 0]])]"

definition ex_aligned :: molecule where
  "ex_aligned =
     [(0, 0, 0), (- (3/2), 0, 0), (0, - (3/4), 0), (0, 0, - (3/4)), (0, 0, 3/4), (0, 3/4, 0),
      (3/2, 0, 0)]"


definition ex_short_nn_info :: "candidate list" where
  "ex_short_nn_info =
     [\<lparr>site_index = 2, image = (0, 0, 0), weight = 1\<rparr>,
      \<lparr>site_index = 2, image = (0, 1, 0), weight = 1\<rparr>]"

text \<open>
  Two examples in doubles. The first is a centre atom whose three coordinates are
  multiples of \<open>2\<^sup>-\<^sup>2\<^sup>6\<close>, with the rotation that sends the axes \<open>x, y, z\<close> to \<open>z, x, y\<close>. The
  second is the perfect octahedron in a cubic cell again, with \<open>L\<close> the double nearest to
  1.9; the other constants are the doubles the program computes from it.
\<close>

definition ex_cycle :: mat3 where
  "ex_cycle = ((0, 0, 1), (1, 0, 0), (0, 1, 0))"

definition ex_rot_struct :: struct where
  "ex_rot_struct =
     \<lparr>sites = [(85501479 / 2 ^ 26, 86876490 / 2 ^ 26, 7824951 / 2 ^ 26)], lattice = eye3\<rparr>"

definition ex_L :: real where
  "ex_L = 4278419646001971 / 2 ^ 51"







section \<open>Errors pass through the steps\<close>

lemma err_bind_eq_Inl:
  "err_bind x f = Inl e \<longleftrightarrow> x = Inl e \<or> (\<exists>y. x = Inr y \<and> f y = Inl e)"
  by (cases x) auto

lemma err_bind_eq_Inr:
  "err_bind x f = Inr r \<longleftrightarrow> (\<exists>y. x = Inr y \<and> f y = Inr r)"
  by (cases x) auto

lemma py_index_not_guard: "py_index xs i \<noteq> Inl FailedNearestNeighbours"
  by (simp add: py_index_def)

lemma traverse_not_guard:
  "(\<And>x. f x \<noteq> Inl FailedNearestNeighbours) \<Longrightarrow> traverse f xs \<noteq> Inl FailedNearestNeighbours"
  by (induction xs) (auto simp: err_bind_eq_Inl)

lemma construct_molecule_not_guard:
  "construct_molecule s c idx ab ims orig \<noteq> Inl FailedNearestNeighbours"
proof -
  have "traverse
          (\<lambda>(i, site).
             err_bind (py_index (sites s) site) (\<lambda>coords.
             err_bind (py_index ims (int i)) (\<lambda>im.
             Inr (vadd coords (get_cartesian_coords (lattice s) im)))))
          (enumerate 0 idx) \<noteq> Inl FailedNearestNeighbours"
    by (rule traverse_not_guard) (auto simp: err_bind_eq_Inl py_index_not_guard split: prod.splits)
  then show ?thesis
    by (auto simp: construct_molecule_def err_bind_eq_Inl)
qed

lemma temp_coords_not_guard: "temp_coords_of s td \<noteq> Inl FailedNearestNeighbours"
  unfolding temp_coords_of_def
  by (rule traverse_not_guard) (auto simp: err_bind_eq_Inl py_index_not_guard)

lemma construct_molecule_ideal_not_guard:
  "construct_molecule_ideal ic \<noteq> Inl FailedNearestNeighbours"
  by (simp add: construct_molecule_ideal_def)

lemma fancy_index_not_guard: "fancy_index xs inds \<noteq> Inl FailedNearestNeighbours"
  unfolding fancy_index_def by (rule traverse_not_guard) auto

lemma match_molecules_not_guard:
  "match_molecules m a b \<noteq> Inl FailedNearestNeighbours"
  by (auto simp: match_molecules_def err_bind_eq_Inl fancy_index_not_guard split: option.splits)

lemma calc_displacement_not_guard:
  "calc_displacement a b irr \<noteq> Inl FailedNearestNeighbours"
  by (auto simp: calc_displacement_def err_bind_eq_Inl np_subtract_def tensordot1_def)

lemma calc_displacement_centre_not_guard:
  "calc_displacement_centre s c orig ab u \<noteq> Inl FailedNearestNeighbours"
  by (auto simp: calc_displacement_centre_def err_bind_eq_Inl py_index_not_guard Let_def)

lemma average_loop_not_guard:
  "average_loop b a acc n \<noteq> Inl FailedNearestNeighbours"
  by (induction b a acc n rule: average_loop.induct) (auto split: ndarray.splits simp: Let_def)

lemma average_not_guard: "average b a \<noteq> Inl FailedNearestNeighbours"
  by (auto simp: average_def err_bind_eq_Inl average_loop_not_guard)

section \<open>The neighbour guard\<close>

text \<open>
  Claim C1 says that fewer than six usable candidates make the analysis fail with the
  coordination error. The guard of line 122 compares \<^verbatim>\<open>len(ideal_coords)\<close>, which is
  always 6, with 6, so the exit of lines 123 and 124 is never taken: whatever the
  neighbour query returns, with however few candidates, and whatever the matcher and the
  basis table are, the analysis never ends with \<open>FailedNearestNeighbours\<close>.
\<close>

theorem guard_never_fires:
  "calc_distortions_from_struct_octahedron_withcentre get_neighbor_list get_nn_info match dict_basis
     mp_struct centre_atom \<noteq> Inl FailedNearestNeighbours"
  unfolding calc_distortions_from_struct_octahedron_withcentre_def Let_def
  by (auto simp: err_bind_eq_Inl ideal_coords_def temp_coords_not_guard construct_molecule_not_guard
        construct_molecule_ideal_not_guard match_molecules_not_guard calc_displacement_not_guard
        calc_displacement_centre_not_guard average_not_guard
      split: option.splits prod.splits)

section \<open>The ideal reference molecule\<close>

text \<open>
  Claim C6: the ideal reference molecule has the zero vector as point 0 and, as points
  1 to 6, the signed unit vectors in the order \<open>-x, -y, -z, +z, +y, +x\<close>.
\<close>

theorem ideal_molecule_points:
  "construct_molecule_ideal ideal_coords =
     Inr [(0, 0, 0), (-1, 0, 0), (0, -1, 0), (0, 0, -1), (0, 0, 1), (0, 1, 0), (1, 0, 0)]"
  by (simp add: construct_molecule_ideal_def ideal_coords_def zero3_def)

section \<open>The worked example, step by step\<close>

lemma ex_temp_dict_eq: "temp_dict_of ex_nn_info = ex_temp_dict"
  by (simp add: temp_dict_of_def ex_nn_info_def ex_temp_dict_def ideal_coords_def)

lemma ex_temp_coords:
  "temp_coords_of ex_struct ex_temp_dict =
     Inr [(2, 0, 1), (2, 2, 1), (2, 1, 0), (2, 1, 2), (0, 1, 1), (4, 1, 1)]"
  by (simp add: temp_coords_of_def ex_struct_def ex_temp_dict_def py_index_def
      get_cartesian_coords_def vec_mat_def)

lemma ex_origin:
  "mean_rows [(2, 0, 1), (2, 2, 1), (2, 1, 0), (2, 1, 2), (0, 1, 1), (4, 1, 1)] = (2, 1, 1)"
  by (simp add: mean_rows_def mean_list_def vx_def vy_def vz_def)

lemma ex_ave_bond:
  "ave_bond_of [(2, 0, 1), (2, 2, 1), (2, 1, 0), (2, 1, 2), (0, 1, 1), (4, 1, 1)] (2, 1, 1) = 4/3"
  by (simp add: ave_bond_of_def mean_list_def norm3_def)

lemma ex_molecule:
  "construct_molecule ex_struct 0 (map site_index ex_temp_dict) (4/3) (map image ex_temp_dict)
     (2, 1, 1) =
   Inr [(0, 0, 0), (0, - (3/4), 0), (0, 3/4, 0), (0, 0, - (3/4)), (0, 0, 3/4), (- (3/2), 0, 0), (3/2, 0, 0)]"
  by (simp add: construct_molecule_def ex_struct_def ex_temp_dict_def py_index_def
      get_cartesian_coords_def vec_mat_def zero3_def enumerate_eq_zip upt_rec)

lemma ex_aligned:
  "match_molecules ex_match
     [(0, 0, 0), (0, - (3/4), 0), (0, 3/4, 0), (0, 0, - (3/4)), (0, 0, 3/4), (- (3/2), 0, 0), (3/2, 0, 0)]
     (zero3 # ideal_coords) =
   Inr ([(0, 0, 0), (- (3/2), 0, 0), (0, - (3/4), 0), (0, 0, - (3/4)), (0, 0, 3/4), (0, 3/4, 0), (3/2, 0, 0)],
        eye3, zero3)"
  by (simp add: match_molecules_def ex_match_def fancy_index_def apply_operation_def eye3_def
      zero3_def)

lemma ex_proj:
  "calc_displacement
     [(0, 0, 0), (- (3/2), 0, 0), (0, - (3/4), 0), (0, 0, - (3/4)), (0, 0, 3/4), (0, 3/4, 0), (3/2, 0, 0)]
     (zero3 # ideal_coords) (irrep_distortions_of ex_basis) =
   Inr (Vector [0, 0, 0, 3/2, 3/2, 0, 0, 0])"
  by (simp add: calc_displacement_def np_subtract_def ideal_coords_def zero3_def ravel_def
      tensordot1_def irrep_distortions_of_def ex_basis_def dot_def)

lemma ex_average:
  "average ex_basis (Vector [0, 0, 0, 3/2, 3/2, 0, 0, 0]) = Inr [sqrt (9/2), 0, 0, 0]"
  by (simp add: average_def ex_basis_def square_array_def)

lemma ex_centre:
  "calc_displacement_centre ex_struct 0 (2, 1, 1) (4/3) eye3 = Inr (0, 0, 1/4)"
  by (simp add: calc_displacement_centre_def ex_struct_def py_index_def vec_mat_def eye3_def)

lemma ideal_coords_length: "length ideal_coords = 6" "ideal_coords \<noteq> []"
  by (simp_all add: ideal_coords_def)

lemma ex_run:
  "calc_distortions_from_struct_octahedron_withcentre ex_get_neighbor_list ex_get_nn_info ex_match ex_basis ex_struct 0 =
     Inr [sqrt (9/2), 0, 0, 0, norm3 (0, 0, 1/4)]"
  unfolding calc_distortions_from_struct_octahedron_withcentre_def Let_def
  by (simp add: ex_get_neighbor_list_def ex_get_nn_info_def ex_temp_dict_eq ex_temp_coords ex_origin ex_ave_bond ex_molecule
      construct_molecule_ideal_def ideal_coords_length ex_aligned ex_proj ex_average ex_centre)

section \<open>Reading a successful run backwards\<close>

lemma average_loop_length:
  "average_loop b a acc n = Inr res \<Longrightarrow> length res = length acc + length b"
proof (induction b a acc n arbitrary: res rule: average_loop.induct)
  case (1 a acc n)
  then show ?case by simp
next
  case (2 irrep vecs rest a acc n)
  from "2.prems" obtain xs where a: "a = Vector xs"
    by (cases a) auto
  from "2.prems" have "average_loop rest a (acc @ [sum_list (take (length vecs) (drop n xs))])
      (n + length vecs) = Inr res"
    by (simp add: a Let_def)
  from "2.IH" [OF a refl this] show ?case
    by simp
qed

lemma average_length:
  "average b a = Inr amps \<Longrightarrow> length amps = length b - 3"
  by (auto simp: average_def err_bind_eq_Inr dest: average_loop_length)

lemma withcentre_Inr:
  assumes "calc_distortions_from_struct_octahedron_withcentre get_neighbor_list get_nn_info match dict_basis
             mp_struct centre_atom = Inr v"
  shows "\<exists>nn_info temp_coords mol ideal aligned u t proj cvec amps.
      get_nn_info mp_struct centre_atom = Some nn_info
    \<and> temp_coords_of mp_struct (temp_dict_of nn_info) = Inr temp_coords
    \<and> temp_coords \<noteq> []
    \<and> construct_molecule mp_struct centre_atom (map site_index (temp_dict_of nn_info))
        (ave_bond_of temp_coords (mean_rows temp_coords)) (map image (temp_dict_of nn_info))
        (mean_rows temp_coords) = Inr mol
    \<and> construct_molecule_ideal ideal_coords = Inr ideal
    \<and> match_molecules match mol ideal = Inr (aligned, u, t)
    \<and> calc_displacement aligned ideal (irrep_distortions_of dict_basis) = Inr proj
    \<and> calc_displacement_centre mp_struct centre_atom (mean_rows temp_coords)
        (ave_bond_of temp_coords (mean_rows temp_coords)) u = Inr cvec
    \<and> average dict_basis proj = Inr amps
    \<and> v = amps @ [norm3 cvec]"
  using assms
  unfolding calc_distortions_from_struct_octahedron_withcentre_def Let_def
  by (auto simp: err_bind_eq_Inr split: option.splits if_splits prod.splits)

lemma average_loop_nonneg:
  "average_loop b a acc n = Inr res \<Longrightarrow> (\<And>xs. a = Vector xs \<Longrightarrow> list_all (\<lambda>x. 0 \<le> x) xs)
     \<Longrightarrow> list_all (\<lambda>x. 0 \<le> x) acc \<Longrightarrow> list_all (\<lambda>x. 0 \<le> x) res"
proof (induction b a acc n arbitrary: res rule: average_loop.induct)
  case (1 a acc n)
  then show ?case by simp
next
  case (2 irrep vecs rest a acc n)
  from "2.prems"(1) obtain xs where a: "a = Vector xs"
    by (cases a) auto
  have "list_all (\<lambda>x. 0 \<le> x) xs" using "2.prems"(2) a by simp
  then have "0 \<le> sum_list (take (length vecs) (drop n xs))"
    by (intro sum_list_nonneg) (auto simp: list_all_iff dest!: in_set_takeD in_set_dropD)
  with 2 a show ?case
    by (auto simp: Let_def)
qed

lemma average_nonneg:
  assumes "average b a = Inr amps"
  shows "list_all (\<lambda>x. 0 \<le> x) amps"
proof -
  from assms obtain res where res: "average_loop b (square_array a) [] 0 = Inr res"
    and amps: "amps = drop 3 (map sqrt res)"
    by (auto simp: average_def err_bind_eq_Inr)
  have "list_all (\<lambda>x. 0 \<le> x) res"
    using res by (rule average_loop_nonneg)
      (auto simp: square_array_def list_all_iff split: ndarray.splits)
  then show ?thesis
    by (auto simp: amps list_all_iff dest!: in_set_dropD)
qed

section \<open>Neighbour selection\<close>

lemma temp_dict_of_eq: "temp_dict_of nn = take 6 (sort_key (\<lambda>x. - weight x) nn)"
  by (simp add: temp_dict_of_def ideal_coords_length)

lemma sorted_descending:
  "sorted_wrt (\<lambda>a b. weight b \<le> weight a) (sort_key (\<lambda>x. - weight x) nn)"
proof -
  have "sorted (map (\<lambda>x. - weight x) (sort_key (\<lambda>x. - weight x) nn))"
    by (rule sorted_sort_key)
  then show ?thesis
    by (simp add: sorted_map)
qed

lemma temp_dict_of_idem: "temp_dict_of (temp_dict_of nn) = temp_dict_of nn"
proof -
  have "sorted_wrt (\<lambda>a b. weight b \<le> weight a) (take 6 (sort_key (\<lambda>x. - weight x) nn))"
    by (rule sorted_wrt_take) (rule sorted_descending)
  then have "sorted (map (\<lambda>x. - weight x) (take 6 (sort_key (\<lambda>x. - weight x) nn)))"
    by (simp add: sorted_map)
  then have "sort_key (\<lambda>x. - weight x) (take 6 (sort_key (\<lambda>x. - weight x) nn))
      = take 6 (sort_key (\<lambda>x. - weight x) nn)"
    by (rule sort_key_id_if_sorted)
  then show ?thesis
    by (simp add: temp_dict_of_eq)
qed

text \<open>
  Claim C7: the candidates returned by the neighbour query are sorted by descending weight
  and the first six are kept as the coordination shell. The sorted list is a permutation
  of the candidates with weights in descending order; \<open>temp_dict\<close> is its first six
  entries, exactly six when the query returned at least six; every candidate left out
  weighs no more than any candidate kept; and the rest of the analysis reads the
  candidates through \<open>temp_dict\<close> only: the run on the kept candidates alone gives the
  same result.
\<close>

theorem temp_dict_top_six:
  assumes "get_nn_info mp_struct centre_atom = Some nn_info"
  shows "temp_dict_of nn_info = take 6 (sort_key (\<lambda>x. - weight x) nn_info)
       \<and> mset (sort_key (\<lambda>x. - weight x) nn_info) = mset nn_info
       \<and> sorted_wrt (\<lambda>a b. weight b \<le> weight a) (sort_key (\<lambda>x. - weight x) nn_info)
       \<and> (6 \<le> length nn_info \<longrightarrow> length (temp_dict_of nn_info) = 6)
       \<and> (\<forall>a \<in> set (temp_dict_of nn_info).
            \<forall>b \<in> set (drop 6 (sort_key (\<lambda>x. - weight x) nn_info)). weight b \<le> weight a)
       \<and> calc_distortions_from_struct_octahedron_withcentre get_neighbor_list get_nn_info match dict_basis
            mp_struct centre_atom
          = calc_distortions_from_struct_octahedron_withcentre
              get_neighbor_list (\<lambda>s n. Some (temp_dict_of nn_info)) match dict_basis mp_struct centre_atom"
proof -
  let ?s = "sort_key (\<lambda>x. - weight x) nn_info"
  have "sorted_wrt (\<lambda>a b. weight b \<le> weight a) (take 6 ?s @ drop 6 ?s)"
    using sorted_descending [of nn_info] by simp
  then have split: "\<forall>a \<in> set (take 6 ?s). \<forall>b \<in> set (drop 6 ?s). weight b \<le> weight a"
    unfolding sorted_wrt_append by blast
  have run: "calc_distortions_from_struct_octahedron_withcentre get_neighbor_list get_nn_info match dict_basis
            mp_struct centre_atom
          = calc_distortions_from_struct_octahedron_withcentre
              get_neighbor_list (\<lambda>s n. Some (temp_dict_of nn_info)) match dict_basis mp_struct centre_atom"
    unfolding calc_distortions_from_struct_octahedron_withcentre_def
    by (cases "get_neighbor_list mp_struct (13 / 2)") (simp_all add: assms temp_dict_of_idem)
  show ?thesis
    using split run sorted_descending [of nn_info]
    by (simp add: temp_dict_of_eq)
qed

theorem temp_dict_top_six_witness:
  "ex_get_nn_info ex_struct 0 = Some ex_nn_info
   \<and> 6 \<le> length ex_nn_info
   \<and> temp_dict_of ex_nn_info = ex_temp_dict
   \<and> length (temp_dict_of ex_nn_info) = 6
   \<and> sorted_wrt (\<lambda>a b. weight b \<le> weight a) (sort_key (\<lambda>x. - weight x) ex_nn_info)"
proof -
  have h: "ex_get_nn_info ex_struct 0 = Some ex_nn_info"
    by (simp add: ex_get_nn_info_def)
  have l: "6 \<le> length ex_nn_info"
    by (simp add: ex_nn_info_def)
  from temp_dict_top_six [where get_nn_info = ex_get_nn_info and mp_struct = ex_struct
      and centre_atom = 0 and nn_info = ex_nn_info, OF h] l ex_temp_dict_eq h
  show ?thesis
    by simp
qed

section \<open>The central displacement under a rotation\<close>

lemma norm3_vec_mat:
  assumes "mat_mul u (transpose3 u) = eye3"
  shows "dot3 (vec_mat x u) (vec_mat x u) = dot3 x x"
proof -
  obtain a b c d e f g h i where u: "u = ((a, b, c), (d, e, f), (g, h, i))"
    by (metis prod_cases3)
  obtain x1 x2 x3 where x: "x = (x1, x2, x3)"
    by (metis prod_cases3)
  from assms have r: "a * a + b * b + c * c = 1" "d * d + e * e + f * f = 1"
    "g * g + h * h + i * i = 1" "a * d + b * e + c * f = 0" "a * g + b * h + c * i = 0"
    "d * g + e * h + f * i = 0"
    by (simp_all add: u vec_mat_def eye3_def)
  have "dot3 (vec_mat x u) (vec_mat x u) =
      x1 * x1 * (a * a + b * b + c * c) + x2 * x2 * (d * d + e * e + f * f)
      + x3 * x3 * (g * g + h * h + i * i) + 2 * x1 * x2 * (a * d + b * e + c * f)
      + 2 * x1 * x3 * (a * g + b * h + c * i) + 2 * x2 * x3 * (d * g + e * h + f * i)"
    by (simp add: u x vec_mat_def algebra_simps)
  also have "\<dots> = dot3 x x"
    by (simp add: r x)
  finally show ?thesis .
qed

lemma mat_vec_eye3: "mat_vec eye3 x = x"
  by (cases x) (simp add: eye3_def)

lemma vec_mat_eye3: "vec_mat x eye3 = x"
  by (cases x) (simp add: eye3_def vec_mat_def)

text \<open>
  Claim C8: for an orthogonal rotation matrix the magnitude of the central displacement
  is the one it would be without the rotation. With the identity matrix in place of the
  rotation \<^verbatim>\<open>calc_displacement_centre\<close> returns the vector
  \<open>(centre - origin) / ave_bond\<close> itself, and the vector returned for an orthogonal matrix
  has the same norm (the norm is what lines 159 and 160 take of it).
\<close>

theorem rotation_keeps_centre_norm:
  assumes "orthogonal3 u" and "py_index (sites s) c = Inr coords" and "a \<noteq> 0"
  shows "\<exists>w. calc_displacement_centre s c orig a u = Inr w
           \<and> calc_displacement_centre s c orig a eye3 = Inr (vdiv (vsub coords orig) a)
           \<and> norm3 w = norm3 (vdiv (vsub coords orig) a)"
  using assms
  by (simp add: calc_displacement_centre_def orthogonal3_def norm3_def mat_vec_eye3 vec_mat_eye3
      norm3_vec_mat)

theorem rotation_keeps_centre_norm_witness:
  "orthogonal3 ex_rotation \<and> py_index (sites ex_struct) 0 = Inr (2, 1, 4/3) \<and> (4/3 :: real) \<noteq> 0
   \<and> calc_displacement_centre ex_struct 0 (2, 1, 1) (4/3) ex_rotation = Inr (0, - (1/5), 3/20)
   \<and> norm3 (0, - (1/5), 3/20) = 1/4
   \<and> norm3 (vdiv (vsub (2, 1, 4/3) (2, 1, 1)) (4/3)) = 1/4
   \<and> (\<exists>w. calc_displacement_centre ex_struct 0 (2, 1, 1) (4/3) ex_rotation = Inr w
          \<and> calc_displacement_centre ex_struct 0 (2, 1, 1) (4/3) eye3
              = Inr (vdiv (vsub (2, 1, 4/3) (2, 1, 1)) (4/3))
          \<and> norm3 w = norm3 (vdiv (vsub (2, 1, 4/3) (2, 1, 1)) (4/3)))"
proof -
  have o: "orthogonal3 ex_rotation"
    by (simp add: orthogonal3_def ex_rotation_def eye3_def vec_mat_def)
  have c: "py_index (sites ex_struct) 0 = Inr (2, 1, 4/3)"
    by (simp add: py_index_def ex_struct_def)
  have a: "(4/3 :: real) \<noteq> 0"
    by simp
  have v: "calc_displacement_centre ex_struct 0 (2, 1, 1) (4/3) ex_rotation
             = Inr (0, - (1/5), 3/20)"
    by (simp add: calc_displacement_centre_def c ex_rotation_def vec_mat_def eye3_def)
  have "sqrt ((1/4)\<^sup>2) = (1/4 :: real)"
    by simp
  then have s: "sqrt (1/16) = (1/4 :: real)"
    by (simp add: power2_eq_square)
  have n1: "norm3 (0, - (1/5), 3/20) = 1/4"
    using s by (simp add: norm3_def)
  have n2: "norm3 (vdiv (vsub (2, 1, 4/3) (2, 1, 1)) (4/3)) = 1/4"
    using s by (simp add: norm3_def)
  from rotation_keeps_centre_norm [OF o c a, of "(2, 1, 1)"] o c a v n1 n2 show ?thesis
    by blast
qed

section \<open>Amplitudes are not negative\<close>

text \<open>
  Claim C9: whenever the analysis returns a result vector, every entry of it, the irrep
  amplitudes and the central displacement at the end, is at least 0.
\<close>

theorem amplitudes_nonneg:
  assumes "calc_distortions_from_struct_octahedron_withcentre get_neighbor_list get_nn_info match dict_basis
             mp_struct centre_atom = Inr v"
  shows "list_all (\<lambda>x. 0 \<le> x) v"
proof -
  from withcentre_Inr [OF assms] obtain proj cvec amps where
    a: "average dict_basis proj = Inr amps" and v: "v = amps @ [norm3 cvec]"
    by blast
  have "0 \<le> norm3 cvec"
    by (cases cvec) (simp add: norm3_def)
  with average_nonneg [OF a] show ?thesis
    by (simp add: v)
qed

theorem amplitudes_nonneg_witness:
  "calc_distortions_from_struct_octahedron_withcentre ex_get_neighbor_list ex_get_nn_info ex_match ex_basis
     ex_struct 0 = Inr [sqrt (9/2), 0, 0, 0, norm3 (0, 0, 1/4)]
   \<and> list_all (\<lambda>x. 0 \<le> x) [sqrt (9/2), 0, 0, 0, norm3 (0, 0, 1/4)]"
  using amplitudes_nonneg [OF ex_run] ex_run by simp

section \<open>The analysis without the centre\<close>

text \<open>
  Claim C10: when \<^verbatim>\<open>calc_distortions_from_struct_octahedron_withcentre\<close> returns a vector
  \<open>v\<close>, \<^verbatim>\<open>calc_distortions_from_struct_octahedron\<close> returns the first four entries of
  \<open>v\<close>. With the seven irreps of the octahedron basis \<open>v\<close> has five entries, so what is
  left out is the central displacement at the end and nothing else.
\<close>

theorem octahedron_first_four:
  assumes "calc_distortions_from_struct_octahedron_withcentre get_neighbor_list get_nn_info match dict_basis
             mp_struct centre_atom = Inr v"
  shows "calc_distortions_from_struct_octahedron get_neighbor_list get_nn_info match dict_basis
             mp_struct centre_atom = Inr (take 4 v)
         \<and> (length dict_basis = 7 \<longrightarrow> length v = 5 \<and> v = take 4 v @ [last v])"
proof -
  from withcentre_Inr [OF assms] obtain proj cvec amps where
    a: "average dict_basis proj = Inr amps" and v: "v = amps @ [norm3 cvec]"
    by blast
  have "length amps = length dict_basis - 3"
    using a by (rule average_length)
  then show ?thesis
    using assms by (auto simp: calc_distortions_from_struct_octahedron_def v)
qed

theorem octahedron_first_four_witness:
  "calc_distortions_from_struct_octahedron_withcentre ex_get_neighbor_list ex_get_nn_info ex_match ex_basis
     ex_struct 0 = Inr [sqrt (9/2), 0, 0, 0, norm3 (0, 0, 1/4)]
   \<and> length ex_basis = 7
   \<and> calc_distortions_from_struct_octahedron ex_get_neighbor_list ex_get_nn_info ex_match ex_basis ex_struct 0
       = Inr [sqrt (9/2), 0, 0, 0]"
proof -
  have l: "length ex_basis = 7"
    by (simp add: ex_basis_def)
  from octahedron_first_four [OF ex_run] l ex_run show ?thesis
    by simp
qed

section \<open>Too few neighbours, run\<close>

text \<open>
  With two candidates the program does not stop at the guard: it builds a molecule of
  three points and calls the matcher. When the matcher raises, as pymatgen does for
  molecules of different sizes, that exception ends the run.
\<close>

lemma short_shell_run:
  "length ex_short_nn_info = 2
   \<and> calc_distortions_from_struct_octahedron_withcentre ex_get_neighbor_list (\<lambda>s n. Some ex_short_nn_info)
       (\<lambda>reference transform. None) ex_basis ex_struct 0 = Inl LibraryRaised"
  unfolding calc_distortions_from_struct_octahedron_withcentre_def Let_def
  by (simp add: ex_get_neighbor_list_def ex_short_nn_info_def temp_dict_of_def ideal_coords_length
      temp_coords_of_def
      ex_struct_def py_index_def get_cartesian_coords_def vec_mat_def mean_rows_def mean_list_def
      vx_def vy_def vz_def ave_bond_of_def norm3_def construct_molecule_def
      construct_molecule_ideal_def match_molecules_def)

section \<open>The constructed molecule\<close>

lemma traverse_length: "traverse f xs = Inr ys \<Longrightarrow> length ys = length xs"
  by (induction xs arbitrary: ys) (auto simp: err_bind_eq_Inr)

lemma py_index_append_length: "py_index (pre @ x # xs) (int (length pre)) = Inr x"
  by (simp add: py_index_def)

lemma construct_rows:
  "traverse
     (\<lambda>(i, site).
        err_bind (py_index (sites s) site) (\<lambda>coords.
        err_bind (py_index (pre @ map image td) (int i)) (\<lambda>im.
        Inr (vadd coords (get_cartesian_coords (lattice s) im)))))
     (enumerate (length pre) (map site_index td))
   = temp_coords_of s td"
proof (induction td arbitrary: pre)
  case Nil
  show ?case by (simp add: temp_coords_of_def)
next
  case (Cons d ds)
  have "traverse
     (\<lambda>(i, site).
        err_bind (py_index (sites s) site) (\<lambda>coords.
        err_bind (py_index ((pre @ [image d]) @ map image ds) (int i)) (\<lambda>im.
        Inr (vadd coords (get_cartesian_coords (lattice s) im)))))
     (enumerate (length (pre @ [image d])) (map site_index ds))
   = temp_coords_of s ds"
    by (rule Cons.IH)
  then show ?case
    using py_index_append_length [of pre "image d" "map image ds"]
    by (simp add: temp_coords_of_def)
qed

lemma construct_molecule_temp_coords:
  "construct_molecule s c (map site_index td) ab (map image td) orig =
     err_bind (temp_coords_of s td) (\<lambda>rows.
       if rows = [] then Inl NumpyError
       else if ab = 0 then Inl NonFinite
       else Inr (zero3 # map (\<lambda>r. vdiv (vsub r orig) ab) rows))"
proof (cases "temp_coords_of s td")
  case (Inl e)
  then show ?thesis
    using construct_rows [of s "[]" td] by (simp add: construct_molecule_def)
next
  case (Inr rows)
  then have "length rows = length td"
    unfolding temp_coords_of_def by (rule traverse_length)
  with Inr show ?thesis
    using construct_rows [of s "[]" td] by (simp add: construct_molecule_def)
qed

lemma traverse_all_Inr:
  "(\<And>x. x \<in> set xs \<Longrightarrow> f x = Inr (g x)) \<Longrightarrow> traverse f xs = Inr (map g xs)"
  by (induction xs) auto

lemma temp_coords_valid:
  assumes "list_all (\<lambda>d. 0 \<le> site_index d \<and> site_index d < int (length (sites s))) td"
  shows "temp_coords_of s td = Inr (map (spec_neighbor_position s) td)"
  unfolding temp_coords_of_def
  by (rule traverse_all_Inr)
     (use assms in \<open>auto simp: list_all_iff py_index_def spec_neighbor_position_def\<close>)

lemma foldr_vadd:
  "foldr vadd ps zero3 = (sum_list (map vx ps), sum_list (map vy ps), sum_list (map vz ps))"
  by (induction ps) (auto simp: zero3_def vx_def vy_def vz_def)

lemma mean_rows_six: "length ps = 6 \<Longrightarrow> mean_rows ps = spec_molecule_origin ps"
  by (simp add: mean_rows_def mean_list_def spec_molecule_origin_def foldr_vadd)

lemma norm3_vsub: "norm3 (vsub p q) = euclidean_distance p q"
  by (cases p; cases q) (simp add: norm3_def power2_eq_square)

lemma ave_bond_six:
  "length ps = 6 \<Longrightarrow> ave_bond_of ps (spec_molecule_origin ps) = spec_ave_bond ps"
  by (simp add: ave_bond_of_def mean_list_def spec_ave_bond_def norm3_vsub)

text \<open>
  Claim C3: for six selected candidates with site indices of the structure, and whatever
  the centre atom is, the molecule the program builds (lines 127 to 143) is the one of
  section 4.2: point 0 is the zero vector and point \<open>i\<close> is the position of neighbour \<open>i\<close>
  minus the mean of the six positions, divided by the mean distance to that mean. The
  mean distance must not be zero: there \<open>ave_bond\<close> divides by zero.
\<close>

theorem molecule_as_specified:
  assumes "length temp_dict = 6"
    and "list_all (\<lambda>d. 0 \<le> site_index d \<and> site_index d < int (length (sites mp_struct)))
           temp_dict"
    and "spec_ave_bond (map (spec_neighbor_position mp_struct) temp_dict) \<noteq> 0"
  shows "\<exists>temp_coords.
           temp_coords_of mp_struct temp_dict = Inr temp_coords
         \<and> temp_coords = map (spec_neighbor_position mp_struct) temp_dict
         \<and> mean_rows temp_coords = spec_molecule_origin temp_coords
         \<and> ave_bond_of temp_coords (mean_rows temp_coords) = spec_ave_bond temp_coords
         \<and> construct_molecule mp_struct centre_atom (map site_index temp_dict)
              (ave_bond_of temp_coords (mean_rows temp_coords)) (map image temp_dict)
              (mean_rows temp_coords)
            = Inr (spec_molecule mp_struct temp_dict)
         \<and> hd (spec_molecule mp_struct temp_dict) = (0, 0, 0)
         \<and> length (spec_molecule mp_struct temp_dict) = 7"
proof -
  let ?ps = "map (spec_neighbor_position mp_struct) temp_dict"
  have len: "length ?ps = 6"
    using assms(1) by simp
  have tc: "temp_coords_of mp_struct temp_dict = Inr ?ps"
    using assms(2) by (rule temp_coords_valid)
  have ne: "?ps \<noteq> []"
    using len by auto
  have orig: "mean_rows ?ps = spec_molecule_origin ?ps"
    using len by (rule mean_rows_six)
  have ab': "ave_bond_of ?ps (spec_molecule_origin ?ps) = spec_ave_bond ?ps"
    using len by (rule ave_bond_six)
  have ab: "ave_bond_of ?ps (mean_rows ?ps) = spec_ave_bond ?ps"
    unfolding orig by (rule ab')
  have mol: "construct_molecule mp_struct centre_atom (map site_index temp_dict)
              (ave_bond_of ?ps (mean_rows ?ps)) (map image temp_dict) (mean_rows ?ps)
            = Inr (spec_molecule mp_struct temp_dict)"
    unfolding construct_molecule_temp_coords tc orig ab'
    using assms(3) ne by (simp add: spec_molecule_def Let_def)
  show ?thesis
    using tc orig ab mol assms(1) by (simp add: spec_molecule_def Let_def zero3_def)
qed

theorem molecule_as_specified_witness:
  "length ex_temp_dict = 6
   \<and> list_all (\<lambda>d. 0 \<le> site_index d \<and> site_index d < int (length (sites ex_struct))) ex_temp_dict
   \<and> spec_ave_bond (map (spec_neighbor_position ex_struct) ex_temp_dict) \<noteq> 0
   \<and> (\<exists>temp_coords.
           temp_coords_of ex_struct ex_temp_dict = Inr temp_coords
         \<and> temp_coords = map (spec_neighbor_position ex_struct) ex_temp_dict
         \<and> mean_rows temp_coords = spec_molecule_origin temp_coords
         \<and> ave_bond_of temp_coords (mean_rows temp_coords) = spec_ave_bond temp_coords
         \<and> construct_molecule ex_struct 0 (map site_index ex_temp_dict)
              (ave_bond_of temp_coords (mean_rows temp_coords)) (map image ex_temp_dict)
              (mean_rows temp_coords)
            = Inr (spec_molecule ex_struct ex_temp_dict)
         \<and> hd (spec_molecule ex_struct ex_temp_dict) = (0, 0, 0)
         \<and> length (spec_molecule ex_struct ex_temp_dict) = 7)"
proof -
  have h1: "length ex_temp_dict = 6"
    by (simp add: ex_temp_dict_def)
  have h2: "list_all (\<lambda>d. 0 \<le> site_index d \<and> site_index d < int (length (sites ex_struct)))
              ex_temp_dict"
    by (simp add: ex_temp_dict_def ex_struct_def)
  have "map (spec_neighbor_position ex_struct) ex_temp_dict
          = [(2, 0, 1), (2, 2, 1), (2, 1, 0), (2, 1, 2), (0, 1, 1), (4, 1, 1)]"
    using ex_temp_coords temp_coords_valid [OF h2] by simp
  then have "spec_ave_bond (map (spec_neighbor_position ex_struct) ex_temp_dict) = 4/3"
    by (simp add: spec_ave_bond_def spec_molecule_origin_def zero3_def)
  then have h3: "spec_ave_bond (map (spec_neighbor_position ex_struct) ex_temp_dict) \<noteq> 0"
    by simp
  from molecule_as_specified [OF h1 h2 h3, of 0] h1 h2 h3 show ?thesis
    by blast
qed

section \<open>Projection on the basis\<close>

lemma length_ravel: "length (ravel ps) = 3 * length ps"
  by (induction ps) (auto simp: ravel_def)

lemma average_loop_vector:
  "average_loop dict_basis
     (Vector (pre @ map f (concat (map snd dict_basis)))) acc (length pre)
   = Inr (acc @ map (\<lambda>(irrep, vecs). sum_list (map f vecs)) dict_basis)"
proof (induction dict_basis arbitrary: pre acc)
  case Nil
  show ?case by simp
next
  case (Cons e rest)
  obtain irrep vecs where e: "e = (irrep, vecs)"
    by (cases e)
  have "average_loop rest
          (Vector ((pre @ map f vecs) @ map f (concat (map snd rest))))
          (acc @ [sum_list (map f vecs)]) (length (pre @ map f vecs))
        = Inr ((acc @ [sum_list (map f vecs)])
               @ map (\<lambda>(irrep, vecs). sum_list (map f vecs)) rest)"
    by (rule Cons.IH)
  then show ?case
    by (simp add: e Let_def add.commute)
qed

lemma average_vector:
  "average dict_basis (Vector (map g (irrep_distortions_of dict_basis)))
   = Inr (drop 3 (map (\<lambda>(irrep, vecs). sqrt (\<Sum>b\<leftarrow>vecs. (g b)\<^sup>2)) dict_basis))"
proof -
  have "average_loop dict_basis
          (Vector ([] @ map (\<lambda>b. g b * g b) (concat (map snd dict_basis)))) [] (length ([] :: real list))
        = Inr ([] @ map (\<lambda>(irrep, vecs). sum_list (map (\<lambda>b. g b * g b) vecs)) dict_basis)"
    by (rule average_loop_vector)
  then show ?thesis
    by (simp add: average_def square_array_def irrep_distortions_of_def comp_def
        power2_eq_square split_def)
qed

lemma average_scalar:
  "average dict_basis (Scalar x) = Inr amps \<Longrightarrow> dict_basis = [] \<and> amps = []"
  by (cases dict_basis) (auto simp: average_def square_array_def err_bind_eq_Inr)

lemma calc_displacement_same_length:
  assumes "length aligned = length ideal"
  shows "calc_displacement aligned ideal a = tensordot1 a (spec_displacement aligned ideal)"
  using assms by (simp add: calc_displacement_def np_subtract_def spec_displacement_def)

lemma reported_amplitudes_fit:
  assumes "length aligned = length ideal"
    and "basis_fits dict_basis (3 * length ideal - 3)"
  shows "reported_amplitudes aligned ideal dict_basis
           = Inr (spec_amplitudes aligned ideal dict_basis)"
proof -
  have "length (spec_displacement aligned ideal) = 3 * length ideal - 3"
    using assms(1) by (simp add: spec_displacement_def length_ravel)
  with assms(2) have "tensordot1 (irrep_distortions_of dict_basis) (spec_displacement aligned ideal)
      = Inr (Vector (map (\<lambda>b. dot b (spec_displacement aligned ideal))
                       (irrep_distortions_of dict_basis)))"
    by (simp add: tensordot1_def basis_fits_def)
  then show ?thesis
    unfolding reported_amplitudes_def calc_displacement_same_length [OF assms(1)]
    by (simp add: average_vector spec_amplitudes_def spec_irrep_amplitude_def)
qed

lemma reported_amplitudes_Inr:
  assumes "length aligned = length ideal"
    and "reported_amplitudes aligned ideal dict_basis = Inr amps"
  shows "amps = spec_amplitudes aligned ideal dict_basis"
proof -
  let ?d = "spec_displacement aligned ideal"
  from assms obtain proj where t: "tensordot1 (irrep_distortions_of dict_basis) ?d = Inr proj"
    and a: "average dict_basis proj = Inr amps"
    by (auto simp: reported_amplitudes_def calc_displacement_same_length err_bind_eq_Inr)
  show ?thesis
  proof (cases proj)
    case (Scalar x)
    with a have "dict_basis = []" "amps = []"
      by (auto dest: average_scalar)
    then show ?thesis by (simp add: spec_amplitudes_def)
  next
    case (Vector xs)
    with t have "proj = Vector (map (\<lambda>b. dot b ?d) (irrep_distortions_of dict_basis))"
      by (auto simp: tensordot1_def split: if_splits)
    with a show ?thesis
      by (simp add: average_vector spec_amplitudes_def spec_irrep_amplitude_def)
  qed
qed

text \<open>
  Claim C2: for an aligned and an ideal molecule of the same number of points, whatever
  the program reports is the list of section 4.5 (the displacement without its first three
  entries, per irrep the square root of the sum of squared projections, in table order,
  without the first three amplitudes); and it does report it when the basis table fits
  the displacement.
\<close>

theorem amplitudes_as_specified:
  assumes "length aligned = length ideal"
  shows "(\<forall>amps. reported_amplitudes aligned ideal dict_basis = Inr amps
            \<longrightarrow> amps = spec_amplitudes aligned ideal dict_basis)
       \<and> (basis_fits dict_basis (3 * length ideal - 3)
            \<longrightarrow> reported_amplitudes aligned ideal dict_basis
                 = Inr (spec_amplitudes aligned ideal dict_basis))"
  using reported_amplitudes_Inr [OF assms] reported_amplitudes_fit [OF assms] by blast

theorem amplitudes_as_specified_witness:
  "length ex_aligned = length (zero3 # ideal_coords)
   \<and> basis_fits ex_basis (3 * length (zero3 # ideal_coords) - 3)
   \<and> reported_amplitudes ex_aligned (zero3 # ideal_coords) ex_basis = Inr [sqrt (9/2), 0, 0, 0]
   \<and> spec_amplitudes ex_aligned (zero3 # ideal_coords) ex_basis = [sqrt (9/2), 0, 0, 0]"
proof -
  have h1: "length ex_aligned = length (zero3 # ideal_coords)"
    by (simp add: ex_aligned_def ideal_coords_length)
  have h2: "basis_fits ex_basis (3 * length (zero3 # ideal_coords) - 3)"
    by (simp add: basis_fits_def irrep_distortions_of_def ex_basis_def ideal_coords_length)
  have r: "reported_amplitudes ex_aligned (zero3 # ideal_coords) ex_basis
             = Inr [sqrt (9/2), 0, 0, 0]"
    using ex_proj ex_average by (simp add: reported_amplitudes_def ex_aligned_def)
  from amplitudes_as_specified [OF h1, of ex_basis] h1 h2 r show ?thesis
    by simp
qed

section \<open>The central displacement in the result\<close>

lemma dot3_self_nonneg: "0 \<le> dot3 a a"
  by (cases a) simp

lemma ave_bond_nonneg: "0 \<le> ave_bond_of ps orig"
proof -
  have "0 \<le> sum_list (map (\<lambda>p. norm3 (vsub p orig)) ps)"
    by (rule sum_list_nonneg) (auto simp: norm3_def dot3_self_nonneg)
  then show ?thesis
    by (simp add: ave_bond_of_def mean_list_def)
qed

lemma run_ends_with_central_displacement:
  assumes "calc_distortions_from_struct_octahedron_withcentre get_neighbor_list get_nn_info match dict_basis
             mp_struct centre_atom = Inr v"
  shows "\<exists>nn_info temp_coords centre mol inds u t aligned amps.
      get_nn_info mp_struct centre_atom = Some nn_info
    \<and> temp_coords_of mp_struct (temp_dict_of nn_info) = Inr temp_coords
    \<and> py_index (sites mp_struct) centre_atom = Inr centre
    \<and> 0 < ave_bond_of temp_coords (mean_rows temp_coords)
    \<and> construct_molecule mp_struct centre_atom (map site_index (temp_dict_of nn_info))
        (ave_bond_of temp_coords (mean_rows temp_coords)) (map image (temp_dict_of nn_info))
        (mean_rows temp_coords) = Inr mol
    \<and> match (zero3 # ideal_coords) mol = Some (inds, u, t)
    \<and> fancy_index (apply_operation u t mol) inds = Inr aligned
    \<and> reported_amplitudes aligned (zero3 # ideal_coords) dict_basis = Inr amps
    \<and> v = amps @ [norm3 (vec_mat (vdiv (vsub centre (mean_rows temp_coords))
                                     (ave_bond_of temp_coords (mean_rows temp_coords))) u)]"
proof -
  from withcentre_Inr [OF assms] obtain nn_info temp_coords mol ideal aligned u t proj cvec amps
    where nn: "get_nn_info mp_struct centre_atom = Some nn_info"
      and tc: "temp_coords_of mp_struct (temp_dict_of nn_info) = Inr temp_coords"
      and mol: "construct_molecule mp_struct centre_atom (map site_index (temp_dict_of nn_info))
        (ave_bond_of temp_coords (mean_rows temp_coords)) (map image (temp_dict_of nn_info))
        (mean_rows temp_coords) = Inr mol"
      and ideal: "construct_molecule_ideal ideal_coords = Inr ideal"
      and mm: "match_molecules match mol ideal = Inr (aligned, u, t)"
      and proj: "calc_displacement aligned ideal (irrep_distortions_of dict_basis) = Inr proj"
      and cd: "calc_displacement_centre mp_struct centre_atom (mean_rows temp_coords)
        (ave_bond_of temp_coords (mean_rows temp_coords)) u = Inr cvec"
      and av: "average dict_basis proj = Inr amps"
      and v: "v = amps @ [norm3 cvec]"
    by blast
  let ?ab = "ave_bond_of temp_coords (mean_rows temp_coords)"
  have ideal_eq: "ideal = zero3 # ideal_coords"
    using ideal by (simp add: construct_molecule_ideal_def split: if_splits)
  from mm obtain inds where m: "match (zero3 # ideal_coords) mol = Some (inds, u, t)"
    and f: "fancy_index (apply_operation u t mol) inds = Inr aligned"
    by (auto simp: match_molecules_def ideal_eq err_bind_eq_Inr split: option.splits)
  from cd obtain centre where c: "py_index (sites mp_struct) centre_atom = Inr centre"
    and ne: "?ab \<noteq> 0"
    and cvec: "cvec = vec_mat (vdiv (vsub centre (mean_rows temp_coords)) ?ab) u"
    by (auto simp: calc_displacement_centre_def err_bind_eq_Inr mat_vec_eye3 split: if_splits)
  have pos: "0 < ?ab"
    using ne ave_bond_nonneg [of temp_coords "mean_rows temp_coords"] by simp
  have rep: "reported_amplitudes aligned (zero3 # ideal_coords) dict_basis = Inr amps"
    using proj av by (simp add: reported_amplitudes_def ideal_eq)
  show ?thesis
    using nn tc c pos mol m f rep v cvec by blast
qed


lemma calc_displacement_centre_value:
  assumes "py_index (sites struct) c = Inr coords" and "0 < ave_bond"
  shows "calc_displacement_centre struct c origin ave_bond matrix_rotation
           = Inr (vec_mat (vdiv (vsub coords origin) ave_bond) matrix_rotation)"
  using assms by (simp add: calc_displacement_centre_def mat_vec_eye3)

text \<open>
  Claim C5: for every structure, centre atom of it, origin, positive \<open>ave_bond\<close> and
  rotation matrix, \<^verbatim>\<open>calc_displacement_centre\<close> returns the vector
  \<open>(centre - origin) / ave_bond\<close> multiplied by the rotation matrix. In every successful run
  the last entry of the result is the Euclidean norm of that vector, taken for the origin
  and the \<open>ave_bond\<close> of the neighbour shell (which is positive there) and the matrix the
  matcher returned; the entries before it are the amplitudes reported for the aligned
  molecule.
\<close>

theorem central_displacement_last:
  "(py_index (sites struct) c = Inr coords \<and> 0 < ave_bond \<longrightarrow>
      calc_displacement_centre struct c origin ave_bond matrix_rotation
        = Inr (vec_mat (vdiv (vsub coords origin) ave_bond) matrix_rotation))
   \<and> (calc_distortions_from_struct_octahedron_withcentre get_neighbor_list get_nn_info match dict_basis
         mp_struct centre_atom = Inr v \<longrightarrow>
       (\<exists>nn_info temp_coords centre mol inds u t aligned amps.
          get_nn_info mp_struct centre_atom = Some nn_info
        \<and> temp_coords_of mp_struct (temp_dict_of nn_info) = Inr temp_coords
        \<and> py_index (sites mp_struct) centre_atom = Inr centre
        \<and> 0 < ave_bond_of temp_coords (mean_rows temp_coords)
        \<and> construct_molecule mp_struct centre_atom (map site_index (temp_dict_of nn_info))
            (ave_bond_of temp_coords (mean_rows temp_coords)) (map image (temp_dict_of nn_info))
            (mean_rows temp_coords) = Inr mol
        \<and> match (zero3 # ideal_coords) mol = Some (inds, u, t)
        \<and> fancy_index (apply_operation u t mol) inds = Inr aligned
        \<and> reported_amplitudes aligned (zero3 # ideal_coords) dict_basis = Inr amps
        \<and> v = amps @ [norm3 (vec_mat (vdiv (vsub centre (mean_rows temp_coords))
                                         (ave_bond_of temp_coords (mean_rows temp_coords))) u)]))"
proof (intro conjI impI)
  assume "py_index (sites struct) c = Inr coords \<and> 0 < ave_bond"
  then show "calc_displacement_centre struct c origin ave_bond matrix_rotation
               = Inr (vec_mat (vdiv (vsub coords origin) ave_bond) matrix_rotation)"
    by (simp add: calc_displacement_centre_value)
next
  assume "calc_distortions_from_struct_octahedron_withcentre get_neighbor_list get_nn_info match dict_basis
            mp_struct centre_atom = Inr v"
  then show "\<exists>nn_info temp_coords centre mol inds u t aligned amps.
          get_nn_info mp_struct centre_atom = Some nn_info
        \<and> temp_coords_of mp_struct (temp_dict_of nn_info) = Inr temp_coords
        \<and> py_index (sites mp_struct) centre_atom = Inr centre
        \<and> 0 < ave_bond_of temp_coords (mean_rows temp_coords)
        \<and> construct_molecule mp_struct centre_atom (map site_index (temp_dict_of nn_info))
            (ave_bond_of temp_coords (mean_rows temp_coords)) (map image (temp_dict_of nn_info))
            (mean_rows temp_coords) = Inr mol
        \<and> match (zero3 # ideal_coords) mol = Some (inds, u, t)
        \<and> fancy_index (apply_operation u t mol) inds = Inr aligned
        \<and> reported_amplitudes aligned (zero3 # ideal_coords) dict_basis = Inr amps
        \<and> v = amps @ [norm3 (vec_mat (vdiv (vsub centre (mean_rows temp_coords))
                                         (ave_bond_of temp_coords (mean_rows temp_coords))) u)]"
    by (rule run_ends_with_central_displacement)
qed

theorem central_displacement_last_witness:
  "py_index (sites ex_struct) 0 = Inr (2, 1, 4/3) \<and> (0 :: real) < 4/3
   \<and> calc_displacement_centre ex_struct 0 (2, 1, 1) (4/3) ex_rotation
       = Inr (vec_mat (vdiv (vsub (2, 1, 4/3) (2, 1, 1)) (4/3)) ex_rotation)
   \<and> calc_distortions_from_struct_octahedron_withcentre ex_get_neighbor_list ex_get_nn_info ex_match ex_basis
       ex_struct 0 = Inr [sqrt (9/2), 0, 0, 0, norm3 (0, 0, 1/4)]
   \<and> (\<exists>nn_info temp_coords centre mol inds u t aligned amps.
          ex_get_nn_info ex_struct 0 = Some nn_info
        \<and> temp_coords_of ex_struct (temp_dict_of nn_info) = Inr temp_coords
        \<and> py_index (sites ex_struct) 0 = Inr centre
        \<and> 0 < ave_bond_of temp_coords (mean_rows temp_coords)
        \<and> construct_molecule ex_struct 0 (map site_index (temp_dict_of nn_info))
            (ave_bond_of temp_coords (mean_rows temp_coords)) (map image (temp_dict_of nn_info))
            (mean_rows temp_coords) = Inr mol
        \<and> ex_match (zero3 # ideal_coords) mol = Some (inds, u, t)
        \<and> fancy_index (apply_operation u t mol) inds = Inr aligned
        \<and> reported_amplitudes aligned (zero3 # ideal_coords) ex_basis = Inr amps
        \<and> [sqrt (9/2), 0, 0, 0, norm3 (0, 0, 1/4)]
            = amps @ [norm3 (vec_mat (vdiv (vsub centre (mean_rows temp_coords))
                                         (ave_bond_of temp_coords (mean_rows temp_coords))) u)])"
proof -
  have c: "py_index (sites ex_struct) 0 = Inr (2, 1, 4/3)"
    by (simp add: py_index_def ex_struct_def)
  have a: "(0 :: real) < 4/3"
    by simp
  note t = central_displacement_last [where struct = ex_struct and c = 0
      and coords = "(2, 1, 4/3)" and ave_bond = "4/3" and origin = "(2, 1, 1)"
      and matrix_rotation = ex_rotation and get_neighbor_list = ex_get_neighbor_list
      and get_nn_info = ex_get_nn_info and match = ex_match
      and dict_basis = ex_basis and mp_struct = ex_struct and centre_atom = 0
      and v = "[sqrt (9/2), 0, 0, 0, norm3 (0, 0, 1/4)]"]
  from t c a ex_run show ?thesis
    by blast
qed

section \<open>The perfect octahedron\<close>










section \<open>Rounding to a double\<close>

text \<open>
  The value of \<open>fl\<close> at a number whose binary exponent is known, and at a square root that
  lies strictly between two half-way points.
\<close>

lemma fl_zero [simp]: "fl 0 = 0"
  by (simp add: fl_def)

lemma round_even_near:
  assumes "\<bar>t - of_int m\<bar> < 1 / 2"
  shows "round_even t = m"
proof -
  have lo: "of_int m - 1 / 2 < t" and hi: "t < of_int m + 1 / 2"
    using assms unfolding abs_less_iff by linarith+
  consider "of_int m \<le> t" | "t < of_int m"
    by linarith
  then show ?thesis
  proof cases
    case 1
    have f: "\<lfloor>t\<rfloor> = m"
    proof (rule floor_unique)
      show "of_int m \<le> t" by (rule 1)
      show "t < of_int m + 1" using hi by linarith
    qed
    show ?thesis
      using hi by (simp add: round_even_def f)
  next
    case 2
    have f: "\<lfloor>t\<rfloor> = m - 1"
    proof (rule floor_unique)
      show "of_int (m - 1) \<le> t" using lo by simp
      show "t < of_int (m - 1) + 1" using 2 by simp
    qed
    show ?thesis
      using lo 2 by (simp add: round_even_def f)
  qed
qed

lemma fl_exponent:
  assumes "2 ^ 52 \<le> \<bar>x\<bar> * 2 ^ k" and "\<bar>x\<bar> * 2 ^ k < 2 ^ 53" and "k \<le> 1074"
  shows "fl x = of_int (round_even (x * 2 ^ k)) / 2 ^ k"
proof -
  have pos: "0 < \<bar>x\<bar>"
  proof (rule ccontr)
    assume "\<not> 0 < \<bar>x\<bar>"
    then have "\<bar>x\<bar> * 2 ^ k = 0" by simp
    with assms(1) show False by simp
  qed
  have p: "(2 :: real) powr (52 - real k) = 2 ^ 52 / 2 ^ k"
    by (simp add: powr_diff powr_realpow)
  have q: "(2 :: real) powr (52 - real k + 1) = 2 ^ 53 / 2 ^ k"
    by (simp add: powr_diff powr_add powr_realpow)
  have "2 powr (52 - real k) \<le> \<bar>x\<bar>"
    unfolding p using assms(1) by (simp add: field_simps)
  then have lo: "52 - real k \<le> log 2 \<bar>x\<bar>"
    using pos by (subst le_log_iff) simp_all
  have "\<bar>x\<bar> < 2 powr (52 - real k + 1)"
    unfolding q using assms(2) by (simp add: field_simps)
  then have hi: "log 2 \<bar>x\<bar> < 52 - real k + 1"
    using pos by (subst log_less_iff) simp_all
  have "\<lfloor>log 2 \<bar>x\<bar>\<rfloor> = 52 - int k"
  proof (rule floor_unique)
    show "of_int (52 - int k) \<le> log 2 \<bar>x\<bar>" using lo by simp
    show "log 2 \<bar>x\<bar> < of_int (52 - int k) + 1" using hi by simp
  qed
  then have e: "max (\<lfloor>log 2 \<bar>x\<bar>\<rfloor> - 52) (- 1074) = - int k"
    using assms(3) by simp
  have pw: "(2 :: real) powr of_int (- int k) = 1 / 2 ^ k"
    by (simp add: powr_minus powr_realpow divide_inverse)
  from pos have "x \<noteq> 0" by auto
  then show ?thesis
    unfolding fl_def e Let_def pw by simp
qed

lemma fl_value:
  assumes "2 ^ 52 \<le> \<bar>x\<bar> * 2 ^ k" and "\<bar>x\<bar> * 2 ^ k < 2 ^ 53" and "k \<le> 1074"
    and "round_even (x * 2 ^ k) = m"
  shows "fl x = of_int m / 2 ^ k"
  using fl_exponent [OF assms(1-3)] assms(4) by simp

lemma fl_sqrt_value:
  assumes "2 ^ 52 < m" and "m < 2 ^ 53" and "k \<le> 1074"
    and "(2 * of_int m - 1)\<^sup>2 < s * (2 * 2 ^ k)\<^sup>2"
    and "s * (2 * 2 ^ k)\<^sup>2 < (2 * of_int m + 1)\<^sup>2"
  shows "fl (sqrt s) = of_int m / 2 ^ k"
proof -
  have mpos: "(0 :: real) < 2 * of_int m - 1"
    using assms(1) by simp
  have spos: "0 < s"
  proof (rule ccontr)
    assume "\<not> 0 < s"
    then have "s * (2 * 2 ^ k)\<^sup>2 \<le> 0"
      by (simp add: mult_nonpos_nonneg)
    moreover have "(0 :: real) \<le> (2 * of_int m - 1)\<^sup>2"
      by simp
    ultimately show False
      using assms(4) by linarith
  qed
  have "(sqrt s)\<^sup>2 = s"
    using spos by simp
  then have sq: "s * (2 * 2 ^ k)\<^sup>2 = (sqrt s * (2 * 2 ^ k))\<^sup>2"
    by (simp only: power_mult_distrib)
  have tpos: "0 \<le> sqrt s * (2 * 2 ^ k)"
    using spos by simp
  have lo: "2 * of_int m - 1 < sqrt s * (2 * 2 ^ k)"
    using assms(4) tpos unfolding sq by (rule power2_less_imp_less)
  have "0 \<le> 2 * real_of_int m + 1"
    using mpos by linarith
  with assms(5) have hi: "sqrt s * (2 * 2 ^ k) < 2 * of_int m + 1"
    unfolding sq by (rule power2_less_imp_less)
  have "sqrt s * (2 * 2 ^ k) = 2 * (sqrt s * 2 ^ k)"
    by (simp only: mult.left_commute)
  with lo hi have lo': "2 * of_int m - 1 < 2 * (sqrt s * 2 ^ k)"
    and hi': "2 * (sqrt s * 2 ^ k) < 2 * of_int m + 1"
    by simp_all
  have near: "\<bar>sqrt s * 2 ^ k - of_int m\<bar> < 1 / 2"
    unfolding abs_less_iff using lo' hi' by linarith
  have r: "round_even (sqrt s * 2 ^ k) = m"
    using near by (rule round_even_near)
  have "2 ^ 52 + 1 \<le> m"
    using assms(1) by simp
  then have "real_of_int (2 ^ 52 + 1) \<le> of_int m"
    by (simp only: of_int_le_iff)
  then have m1: "(2 :: real) ^ 52 + 1 \<le> of_int m"
    by simp
  have "m \<le> 2 ^ 53 - 1"
    using assms(2) by simp
  then have "real_of_int m \<le> of_int (2 ^ 53 - 1)"
    by (simp only: of_int_le_iff)
  then have m2: "of_int m \<le> (2 :: real) ^ 53 - 1"
    by simp
  have a: "\<bar>sqrt s\<bar> = sqrt s"
    using spos by simp
  show ?thesis
  proof (rule fl_value [OF _ _ assms(3) r])
    show "2 ^ 52 \<le> \<bar>sqrt s\<bar> * 2 ^ k"
      unfolding a using lo' m1 by linarith
    show "\<bar>sqrt s\<bar> * 2 ^ k < 2 ^ 53"
      unfolding a using hi' m2 by linarith
  qed
qed

section \<open>The central displacement under a rotation, in float64\<close>

text \<open>The roundings of the example, one by one.\<close>

lemma fl_rot_1: "fl (85501479 / 67108864) = 85501479 / 67108864"
  using fl_value [of "85501479 / 67108864" 52 "5737907126009856"] by (simp add: round_even_def)

lemma fl_rot_2: "fl (43438245 / 33554432) = 43438245 / 33554432"
  using fl_value [of "43438245 / 33554432" 52 "5830182552207360"] by (simp add: round_even_def)

lemma fl_rot_3: "fl (7824951 / 67108864) = 7824951 / 67108864"
  using fl_value [of "7824951 / 67108864" 56 "8401977159450624"] by (simp add: round_even_def)

lemma fl_rot_4: "fl (7310502911187441 / 4503599627370496) = 7310502911187441 / 4503599627370496"
  using fl_value [of "7310502911187441 / 4503599627370496" 52 "7310502911187441"] by (simp add: round_even_def)

lemma fl_rot_5: "fl (1886881128680025 / 1125899906842624) = 1886881128680025 / 1125899906842624"
  using fl_value [of "1886881128680025 / 1125899906842624" 52 "7547524514720100"] by (simp add: round_even_def)

lemma fl_rot_6: "fl (61229858152401 / 4503599627370496) = 61229858152401 / 4503599627370496"
  using fl_value [of "61229858152401 / 4503599627370496" 59 "7837421843507328"] by (simp add: round_even_def)

lemma fl_rot_7: "fl (14858027425907541 / 4503599627370496) = 3714506856476885 / 1125899906842624"
  using fl_value [of "14858027425907541 / 4503599627370496" 51 "7429013712953770"] by (simp add: round_even_def)

lemma fl_rot_8: "fl (14919257284059941 / 4503599627370496) = 3729814321014985 / 1125899906842624"
  using fl_value [of "14919257284059941 / 4503599627370496" 51 "7459628642029970"] by (simp add: round_even_def)

lemma fl_rot_9: "fl (sqrt (3729814321014985 / 1125899906842624)) = 2049243176533975 / 1125899906842624"
  using fl_sqrt_value [of "8196972706135900" 52 "3729814321014985 / 1125899906842624"] by simp

lemma fl_rot_10: "fl (7608754372872501 / 4503599627370496) = 7608754372872501 / 4503599627370496"
  using fl_value [of "7608754372872501 / 4503599627370496" 52 "7608754372872501"] by (simp add: round_even_def)

lemma fl_rot_11: "fl (7459628642029971 / 2251799813685248) = 7459628642029971 / 2251799813685248"
  using fl_value [of "7459628642029971 / 2251799813685248" 51 "7459628642029971"] by (simp add: round_even_def)

lemma fl_rot_12: "fl (sqrt (7459628642029971 / 2251799813685248)) = 8196972706135901 / 4503599627370496"
  using fl_sqrt_value [of "8196972706135901" 52 "7459628642029971 / 2251799813685248"] by simp

lemmas fl_rot = fl_rot_1 fl_rot_2 fl_rot_3 fl_rot_4 fl_rot_5 fl_rot_6 fl_rot_7 fl_rot_8 fl_rot_9 fl_rot_10 fl_rot_11 fl_rot_12

text \<open>
  Claim C8 as it is written fails in float64. The matrix \<open>ex_cycle\<close> is a rotation, and for
  the centre atom of the example (origin zero, \<open>ave_bond\<close> 1) the magnitude the program
  returns is 1.8200935661152107 without the rotation and 1.820093566115211 with it: the
  three squares are added in another order, and the rounded sums differ.
\<close>

theorem rotation_changes_float_norm:
  "orthogonal3 ex_cycle \<and> det3 ex_cycle = 1
   \<and> map_sum id fl_norm3 (fl_calc_displacement_centre ex_rot_struct 0 zero3 1 eye3)
       = Inr (8196972706135900 / 2 ^ 52)
   \<and> map_sum id fl_norm3 (fl_calc_displacement_centre ex_rot_struct 0 zero3 1 ex_cycle)
       = Inr (8196972706135901 / 2 ^ 52)
   \<and> (8196972706135900 / 2 ^ 52 :: real) \<noteq> 8196972706135901 / 2 ^ 52"
  by (simp add: orthogonal3_def ex_cycle_def eye3_def vec_mat_def fl_calc_displacement_centre_def
      ex_rot_struct_def py_index_def zero3_def fl_vec_mat_def fl_sum_def fl_rot)

section \<open>The perfect octahedron, in float64\<close>











































lemma ex_L_double: "fl (19 / 10) = ex_L"
  using fl_value [of "19 / 10" 52 "8556839292003942"] by (simp add: round_even_def ex_L_def)













end
